theory Spec2Isabelle
  imports Complex_Main "HOL-Library.Word" "HOL-Library.Log_Nat"
begin

section \<open>The OpenBSD driver of chronyd (sys\_openbsd.c)\<close>

text \<open>
  The driver is embedded function by function.  Everything it calls outside its own file
  (configuration getters, the scheduler, the privileged-operations helper, libc and the
  kernel) is either an argument of the embedded function or an answer recorded in an
  environment record, so that no behaviour of a collaborator is assumed silently.
  What the driver does to the outside (log calls, pledge calls, time-setting calls,
  dispersion notifications) is recorded as a list of events, oldest first.
\<close>

subsection \<open>Observable events\<close>

text \<open>The severities of logging.h that the driver uses.\<close>

datatype LOG_Severity = LOGS_DEBUG | LOGS_INFO | LOGS_FATAL

record timespec =
  tv_sec :: int
  tv_nsec :: int

datatype event =
    Logged LOG_Severity string
  | Pledge string
  | SetTime int timespec
  | DispersionNotify real

text \<open>
  A call either returns to its caller or ends in \<open>LOG_FATAL\<close>, which logs the message at
  fatal severity and terminates the process.  Both carry the events of the call.
\<close>

datatype run = Exited "event list" | Completed "event list"

subsection \<open>System call filter: \<open>SYS_OpenBSD_EnableSystemCallFilter\<close>\<close>

datatype SYS_ProcessContext = SYS_MAIN_PROCESS | SYS_PRIVOPS_HELPER | SYS_NTSKE_HELPER

text \<open>
  What the collaborators answer during one call: the number of NTS server certificate/key
  pairs (\<open>CNF_GetNtsServerCertAndKeyFiles\<close>), the number of NTS-KE helper processes
  (\<open>CNF_GetNtsServerProcesses\<close>), the effective user id (\<open>geteuid\<close>) and what
  \<open>pledge\<close> returns for a given promise string.
\<close>

record filter_env =
  nts_cert_and_key_files :: int
  nts_server_processes :: int
  euid :: "32 word"
  pledge :: "string \<Rightarrow> int"

text \<open>The statement \<^verbatim>\<open>if (pledge(p, NULL) < 0) LOG_FATAL("pledge() failed");\<close>\<close>

definition pledge_or_fatal :: "filter_env \<Rightarrow> string \<Rightarrow> run" where
  "pledge_or_fatal env p =
     (if pledge env p < 0 then Exited [Pledge p, Logged LOGS_FATAL ''pledge() failed'']
      else Completed [Pledge p])"

text \<open>The final \<^verbatim>\<open>LOG(...)\<close> of the function, reached only when nothing before it was fatal.\<close>

definition log_loaded :: "SYS_ProcessContext \<Rightarrow> run \<Rightarrow> run" where
  "log_loaded context r =
     (case r of
        Exited evs \<Rightarrow> Exited evs
      | Completed evs \<Rightarrow>
          Completed (evs @ [Logged (if context = SYS_MAIN_PROCESS then LOGS_INFO else LOGS_DEBUG)
                              ''Loaded pledge filter'']))"

definition SYS_OpenBSD_EnableSystemCallFilter ::
  "int \<Rightarrow> SYS_ProcessContext \<Rightarrow> filter_env \<Rightarrow> run" where
  "SYS_OpenBSD_EnableSystemCallFilter level context env =
     (if level \<noteq> 1 \<and> context = SYS_MAIN_PROCESS then
        Exited [Logged LOGS_FATAL ''Unsupported filter level'']
      else log_loaded context
        (if context = SYS_MAIN_PROCESS then
           (if 0 < nts_cert_and_key_files env \<and> 0 < nts_server_processes env then
              (if euid env = 0 then
                 pledge_or_fatal env ''stdio rpath wpath cpath inet unix dns sendfd settime''
               else
                 pledge_or_fatal env ''stdio rpath wpath cpath inet unix dns sendfd'')
            else
              (if euid env = 0 then
                 pledge_or_fatal env ''stdio rpath wpath cpath inet unix dns settime''
               else
                 pledge_or_fatal env ''stdio rpath wpath cpath inet unix dns''))
         else if context = SYS_PRIVOPS_HELPER then
           pledge_or_fatal env ''stdio settime''
         else if context = SYS_NTSKE_HELPER then
           pledge_or_fatal env ''stdio recvfd''
         else Completed []))"

subsection \<open>Reading a promise string as a capability set\<close>

text \<open>
  A promise string is a list of tokens separated by spaces.  The comments of the function
  give the meaning of each token it uses: stdio (libc stdio calls), rpath, wpath, cpath
  (read, write, create files), inet (internet connections), unix (unix sockets), dns
  (DNS resolution), sendfd and recvfd (passing a descriptor to, receiving one from, another
  process), settime (setting the time).
\<close>

datatype capability =
    Stdio | FileRead | FileWrite | FileCreate | Network | UnixSocket | Dns
  | FdSend | FdReceive | TimeSet

fun tokens :: "string \<Rightarrow> string \<Rightarrow> string list" where
  "tokens acc [] = (if acc = [] then [] else [acc])"
| "tokens acc (c # cs) =
     (if c = CHR '' '' then (if acc = [] then tokens [] cs else acc # tokens [] cs)
      else tokens (acc @ [c]) cs)"

definition promise_capability :: "string \<Rightarrow> capability option" where
  "promise_capability t =
     (if t = ''stdio'' then Some Stdio
      else if t = ''rpath'' then Some FileRead
      else if t = ''wpath'' then Some FileWrite
      else if t = ''cpath'' then Some FileCreate
      else if t = ''inet'' then Some Network
      else if t = ''unix'' then Some UnixSocket
      else if t = ''dns'' then Some Dns
      else if t = ''sendfd'' then Some FdSend
      else if t = ''recvfd'' then Some FdReceive
      else if t = ''settime'' then Some TimeSet
      else None)"

definition capabilities :: "string \<Rightarrow> capability set" where
  "capabilities p = set (List.map_filter promise_capability (tokens [] p))"

text \<open>
  The capability set a call has installed: the one of its single successful pledge call,
  when the call returned; nothing when the process was terminated instead.
\<close>

definition pledged :: "event list \<Rightarrow> string list" where
  "pledged evs = List.map_filter (\<lambda>e. case e of Pledge p \<Rightarrow> Some p | _ \<Rightarrow> None) evs"

definition installed :: "run \<Rightarrow> capability set option" where
  "installed r =
     (case r of
        Exited evs \<Rightarrow> None
      | Completed evs \<Rightarrow> (case pledged evs of [p] \<Rightarrow> Some (capabilities p) | _ \<Rightarrow> None))"

definition nts_ke_pool :: "filter_env \<Rightarrow> bool" where
  "nts_ke_pool env \<longleftrightarrow> 0 < nts_cert_and_key_files env \<and> 0 < nts_server_processes env"

subsection \<open>RTC synchronisation: \<open>synchronise_rtc\<close> and \<open>set_sync_status\<close>\<close>

text \<open>OpenBSD numbers the wall clock 0 (\<^verbatim>\<open>CLOCK_REALTIME\<close> of sys/\_time.h).\<close>

definition CLOCK_REALTIME :: int where
  "CLOCK_REALTIME = 0"

definition RTC_SYNC_INTERVAL :: real where
  "RTC_SYNC_INTERVAL = 60 * 60"

text \<open>
  What the collaborators answer during one status report: \<open>CNF_GetRtcSync\<close>, the raw
  time of the last event that \<open>SCH_GetLastEventTime\<close> stores through its third
  argument, the two readings of \<open>LCL_ReadRawTime\<close> (before and after the commit) and
  what \<open>PRV_SetTime\<close> returns.
\<close>

record rtc_env =
  rtc_sync :: int
  last_event_time :: timespec
  raw_time :: timespec
  set_time_result :: int
  raw_time_after :: timespec

text \<open>
  The driver's state is the static variable \<open>last_rtc_sync\<close>; the events it has caused
  are kept beside it.
\<close>

record driver =
  last_rtc_sync :: timespec
  events :: "event list"

text \<open>
  \<open>UTI_DiffTimespecsToDouble\<close> belongs to util.c and is an argument here (\<open>diff\<close>): the
  difference of two timestamps in seconds, a finite double, read as the real number it
  denotes.  On such a value \<open>fabs\<close> and the comparison are exact.
\<close>

definition synchronise_rtc :: "(timespec \<Rightarrow> timespec \<Rightarrow> real) \<Rightarrow> rtc_env \<Rightarrow> event list" where
  "synchronise_rtc diff env =
     (let ts = raw_time env in
      if set_time_result env < 0 then
        [SetTime CLOCK_REALTIME ts, Logged LOGS_DEBUG ''clock_settime() failed'']
      else
        let new_ts = raw_time_after env;
            err = diff new_ts ts
        in [SetTime CLOCK_REALTIME ts, DispersionNotify \<bar>err\<bar>])"

definition set_sync_status ::
  "(timespec \<Rightarrow> timespec \<Rightarrow> real) \<Rightarrow> rtc_env \<Rightarrow> int \<Rightarrow> real \<Rightarrow> real \<Rightarrow> driver \<Rightarrow> driver" where
  "set_sync_status diff env synchronised est_error max_error d =
     (if synchronised = 0 \<or> rtc_sync env = 0 then d
      else
        let now = last_event_time env;
            rtc_sync_elapsed = diff now (last_rtc_sync d)
        in if RTC_SYNC_INTERVAL \<le> \<bar>rtc_sync_elapsed\<bar> then
             d\<lparr>events := events d @ synchronise_rtc diff env
                            @ [Logged LOGS_DEBUG ''rtc synchronised''],
               last_rtc_sync := now\<rparr>
           else d)"

text \<open>
  A status report is the environment of the call with the three arguments of the callback;
  the synchronisation engine delivers reports one after the other.
\<close>

type_synonym report = "rtc_env \<times> int \<times> real \<times> real"

fun status_reports :: "(timespec \<Rightarrow> timespec \<Rightarrow> real) \<Rightarrow> driver \<Rightarrow> report list \<Rightarrow> driver" where
  "status_reports diff d [] = d"
| "status_reports diff d ((env, synchronised, est_error, max_error) # rs) =
     status_reports diff (set_sync_status diff env synchronised est_error max_error d) rs"

text \<open>The timestamps handed to \<open>PRV_SetTime\<close>, in the order of the calls.\<close>

definition set_times :: "event list \<Rightarrow> timespec list" where
  "set_times evs = List.map_filter (\<lambda>e. case e of SetTime c ts \<Rightarrow> Some ts | _ \<Rightarrow> None) evs"

text \<open>
  A difference on whole seconds, for running the driver on concrete reports (it is not the
  function of util.c, which also counts the nanoseconds).
\<close>

definition whole_seconds :: "timespec \<Rightarrow> timespec \<Rightarrow> real" where
  "whole_seconds a b = of_int (tv_sec a - tv_sec b)"

definition at_second :: "int \<Rightarrow> timespec" where
  "at_second s = \<lparr>tv_sec = s, tv_nsec = 0\<rparr>"

subsection \<open>The override of \<open>clock_settime\<close>\<close>

text \<open>The field \<open>tv_secs\<close> is the field \<^verbatim>\<open>tv_sec\<close> of the C struct timeval.\<close>

record timeval =
  tv_secs :: int
  tv_usec :: int

text \<open>
  \<open>settimeofday\<close> acts on the kernel, whose state has some type \<open>'k\<close>, and returns an
  int; \<open>UTI_TimespecToTimeval\<close> belongs to util.c.  Both are arguments.
\<close>

definition clock_settime ::
  "(timeval \<Rightarrow> 'k \<Rightarrow> int \<times> 'k) \<Rightarrow> (timespec \<Rightarrow> timeval) \<Rightarrow> int \<Rightarrow> timespec \<Rightarrow> 'k \<Rightarrow> int \<times> 'k" where
  "clock_settime settimeofday UTI_TimespecToTimeval clock now k =
     (if clock \<noteq> CLOCK_REALTIME then (- 1, k)
      else let tv = UTI_TimespecToTimeval now in settimeofday tv k)"

subsection \<open>The type \<open>double\<close>\<close>

text \<open>
  A finite double is read as the real number it denotes.  C computes a product, a quotient
  and the conversion of an integer in two steps: the exact result, then the nearest double,
  ties going to the even significand (IEEE 754 binary64: 53 significant bits, least normal
  exponent \<open>- 1022\<close>, below which the spacing stays at \<open>2 powi (- 1074)\<close>).
  \<open>to_double\<close> is that second step.  A result of magnitude \<open>2 ^ 1024\<close> or more is an
  infinity in C; here it stays a large real, and both are outside the range of
  \<open>int64_t\<close>, the only place where the driver looks at them.
\<close>

definition round_even :: "real \<Rightarrow> int" where
  "round_even x =
     (let f = \<lfloor>x\<rfloor>; d = x - of_int f in
      if d < 1 / 2 then f else if 1 / 2 < d then f + 1 else if even f then f else f + 1)"

text \<open>The exponent of a positive real: \<open>2 powi ilog2 x \<le> x < 2 powi (ilog2 x + 1)\<close>.\<close>

definition ilog2 :: "real \<Rightarrow> int" where
  "ilog2 x = (if 1 \<le> x then bitlen \<lfloor>x\<rfloor> - 1 else - bitlen (\<lceil>1 / x\<rceil> - 1))"

definition to_double :: "real \<Rightarrow> real" where
  "to_double x =
     (if x = 0 then 0
      else let e = max (ilog2 \<bar>x\<bar>) (- 1022);
               ulp = 2 powi (e - 52)
           in of_int (round_even (x / ulp)) * ulp)"

definition double_mul :: "real \<Rightarrow> real \<Rightarrow> real" where
  "double_mul a b = to_double (a * b)"

definition double_div :: "real \<Rightarrow> real \<Rightarrow> real" where
  "double_div a b = to_double (a / b)"

definition int64_to_double :: "64 word \<Rightarrow> real" where
  "int64_to_double w = to_double (of_int (sint w))"

text \<open>
  The conversion of a double to \<open>int64_t\<close> drops the fraction; C leaves it undefined
  when the result does not fit.
\<close>

definition trunc :: "real \<Rightarrow> int" where
  "trunc x = (if 0 \<le> x then \<lfloor>x\<rfloor> else \<lceil>x\<rceil>)"

definition double_to_int64 :: "real \<Rightarrow> 64 word option" where
  "double_to_int64 x =
     (let t = trunc x in if - (2 ^ 63) \<le> t \<and> t < 2 ^ 63 then Some (word_of_int t) else None)"

subsection \<open>Frequency: \<open>read_frequency\<close> and \<open>set_frequency\<close>\<close>

text \<open>
  A call returns a value, ends in \<open>LOG_FATAL\<close> with a message, or has no defined
  behaviour in C (a conversion out of range, the negation of the least \<open>int64_t\<close>).
\<close>

datatype 'a outcome = Fatal string | Undefined | Returns 'a

definition and_then :: "'a outcome \<Rightarrow> ('a \<Rightarrow> 'b outcome) \<Rightarrow> 'b outcome" where
  "and_then r f = (case r of Fatal m \<Rightarrow> Fatal m | Undefined \<Rightarrow> Undefined | Returns a \<Rightarrow> f a)"

text \<open>
  \<open>PRV_AdjustFreq\<close> belongs to privops.c and ends in the kernel; it is the argument
  \<open>prv_adjust_freq\<close>.  Given the new value or \<open>None\<close> for \<^verbatim>\<open>NULL\<close> and the state of
  the kernel, it answers with its return value, the value it stores through
  \<^verbatim>\<open>oldfreq\<close> and the next state of the kernel.  The constant \<^verbatim>\<open>1000LL << 32\<close> is
  \<open>push_bit 32 1000\<close>; as the other operand is a double it is converted to double.
\<close>

definition read_frequency ::
  "(64 word option \<Rightarrow> 'k \<Rightarrow> int \<times> 64 word \<times> 'k) \<Rightarrow> 'k \<Rightarrow> (real \<times> 'k) outcome" where
  "read_frequency prv_adjust_freq k =
     (case prv_adjust_freq None k of
        (rc, freq, k') \<Rightarrow>
          if rc \<noteq> 0 then Fatal ''adjfreq() failed''
          else if sint freq = - (2 ^ 63) then Undefined
          else Returns (double_div (int64_to_double (- freq))
                          (int64_to_double (push_bit 32 1000)), k'))"

definition set_frequency ::
  "(64 word option \<Rightarrow> 'k \<Rightarrow> int \<times> 64 word \<times> 'k) \<Rightarrow> real \<Rightarrow> 'k \<Rightarrow> (real \<times> 'k) outcome" where
  "set_frequency prv_adjust_freq freq_ppm k =
     (case double_to_int64 (double_mul (- freq_ppm) (int64_to_double (push_bit 32 1000))) of
        None \<Rightarrow> Undefined
      | Some freq \<Rightarrow>
          (case prv_adjust_freq (Some freq) k of
             (rc, old, k') \<Rightarrow>
               if rc \<noteq> 0 then Fatal ''adjfreq() failed''
               else read_frequency prv_adjust_freq k'))"

subsection \<open>Start-up: \<open>reset_adjtime_offset\<close>\<close>

text \<open>\<open>PRV_AdjustTime\<close>, also of privops.c, is the argument \<open>prv_adjust_time\<close>.\<close>

definition reset_adjtime_offset :: "(timeval \<Rightarrow> 'k \<Rightarrow> int \<times> 'k) \<Rightarrow> 'k \<Rightarrow> 'k outcome" where
  "reset_adjtime_offset prv_adjust_time k =
     (let delta = \<lparr>tv_secs = 0, tv_usec = 0\<rparr> in
      case prv_adjust_time delta k of
        (rc, k') \<Rightarrow> if rc \<noteq> 0 then Fatal ''adjtime() failed'' else Returns k')"

subsection \<open>A kernel for the privileged operations\<close>

text \<open>
  Modelled from the spec: \<open>PRV_AdjustFreq\<close> and \<open>PRV_AdjustTime\<close> of privops.c, with
  the kernel calls behind them, are not in sys\_openbsd.c.  The spec names them
  \<open>adjust_frequency(set?, get?)\<close> and \<open>adjust_time_residual(delta)\<close>: the first
  commits a frequency adjustment and reports the one in effect, the second commits the
  time adjustment still to be applied, and either can be rejected by the kernel.  The
  kernel below stores what it is given, unchanged, and rejects every call or none.
\<close>

record kernel =
  frequency :: "64 word"
  residual :: timeval
  rejecting :: bool

definition PRV_AdjustFreq :: "64 word option \<Rightarrow> kernel \<Rightarrow> int \<times> 64 word \<times> kernel" where
  "PRV_AdjustFreq new k =
     (if rejecting k then (- 1, 0, k)
      else (0, frequency k, case new of None \<Rightarrow> k | Some f \<Rightarrow> k\<lparr>frequency := f\<rparr>))"

definition PRV_AdjustTime :: "timeval \<Rightarrow> kernel \<Rightarrow> int \<times> kernel" where
  "PRV_AdjustTime delta k =
     (if rejecting k then (- 1, k) else (0, k\<lparr>residual := delta\<rparr>))"

section \<open>Properties\<close>

subsection \<open>Capability sets\<close>

lemma capabilities_main_sendfd_settime:
  "capabilities ''stdio rpath wpath cpath inet unix dns sendfd settime'' =
     {Stdio, FileRead, FileWrite, FileCreate, Network, UnixSocket, Dns, FdSend, TimeSet}"
  by (simp add: capabilities_def promise_capability_def List.map_filter_def)

lemma capabilities_main_sendfd:
  "capabilities ''stdio rpath wpath cpath inet unix dns sendfd'' =
     {Stdio, FileRead, FileWrite, FileCreate, Network, UnixSocket, Dns, FdSend}"
  by (simp add: capabilities_def promise_capability_def List.map_filter_def)

lemma capabilities_main_settime:
  "capabilities ''stdio rpath wpath cpath inet unix dns settime'' =
     {Stdio, FileRead, FileWrite, FileCreate, Network, UnixSocket, Dns, TimeSet}"
  by (simp add: capabilities_def promise_capability_def List.map_filter_def)

lemma capabilities_main:
  "capabilities ''stdio rpath wpath cpath inet unix dns'' =
     {Stdio, FileRead, FileWrite, FileCreate, Network, UnixSocket, Dns}"
  by (simp add: capabilities_def promise_capability_def List.map_filter_def)

lemma capabilities_privops: "capabilities ''stdio settime'' = {Stdio, TimeSet}"
  by (simp add: capabilities_def promise_capability_def List.map_filter_def)

lemma capabilities_ntske: "capabilities ''stdio recvfd'' = {Stdio, FdReceive}"
  by (simp add: capabilities_def promise_capability_def List.map_filter_def)

lemma installed_pledge_or_fatal:
  "0 \<le> pledge env p \<Longrightarrow>
     installed (log_loaded context (pledge_or_fatal env p)) = Some (capabilities p)"
  by (simp add: installed_def log_loaded_def pledge_or_fatal_def pledged_def
      List.map_filter_def)

lemma main_process_run:
  "SYS_OpenBSD_EnableSystemCallFilter 1 SYS_MAIN_PROCESS env =
     log_loaded SYS_MAIN_PROCESS
       (pledge_or_fatal env
          (if nts_ke_pool env then
             (if euid env = 0 then ''stdio rpath wpath cpath inet unix dns sendfd settime''
              else ''stdio rpath wpath cpath inet unix dns sendfd'')
           else
             (if euid env = 0 then ''stdio rpath wpath cpath inet unix dns settime''
              else ''stdio rpath wpath cpath inet unix dns'')))"
  by (simp add: SYS_OpenBSD_EnableSystemCallFilter_def nts_ke_pool_def)

lemma installed_log_loaded_Some:
  "installed (log_loaded context (pledge_or_fatal env p)) = Some S \<Longrightarrow> S = capabilities p"
  by (simp add: installed_def log_loaded_def pledge_or_fatal_def pledged_def
      List.map_filter_def split: if_splits)

lemma installed_unsupported_level:
  "level \<noteq> 1 \<Longrightarrow>
     installed (SYS_OpenBSD_EnableSystemCallFilter level SYS_MAIN_PROCESS env) = None"
  by (simp add: SYS_OpenBSD_EnableSystemCallFilter_def installed_def)

text \<open>
  C3.  In the main process the call makes one pledge call, and only that call has to
  succeed.  With an NTS-KE pool configured and root, level 1 and the string pledged
  accepted, the capability set installed is exactly stdio, file read/write/create, network,
  unix socket, DNS, fd-send and time-set; with the pool and not root it is the same
  without time-set; without a pool it has no fd-send, and has time-set exactly when root.
  Whatever the level is and whatever pledge answers, a set that is installed is the one of
  the configuration: the base set, with fd-send exactly when a pool is configured and
  time-set exactly when root.
\<close>

theorem main_capability_set:
  "(nts_ke_pool env \<and> euid env = 0
      \<and> 0 \<le> pledge env ''stdio rpath wpath cpath inet unix dns sendfd settime'' \<longrightarrow>
      installed (SYS_OpenBSD_EnableSystemCallFilter 1 SYS_MAIN_PROCESS env) =
        Some {Stdio, FileRead, FileWrite, FileCreate, Network, UnixSocket, Dns,
              FdSend, TimeSet})
   \<and> (nts_ke_pool env \<and> euid env \<noteq> 0
      \<and> 0 \<le> pledge env ''stdio rpath wpath cpath inet unix dns sendfd'' \<longrightarrow>
      installed (SYS_OpenBSD_EnableSystemCallFilter 1 SYS_MAIN_PROCESS env) =
        Some {Stdio, FileRead, FileWrite, FileCreate, Network, UnixSocket, Dns, FdSend})
   \<and> (\<not> nts_ke_pool env \<and> euid env = 0
      \<and> 0 \<le> pledge env ''stdio rpath wpath cpath inet unix dns settime'' \<longrightarrow>
      installed (SYS_OpenBSD_EnableSystemCallFilter 1 SYS_MAIN_PROCESS env) =
        Some {Stdio, FileRead, FileWrite, FileCreate, Network, UnixSocket, Dns, TimeSet})
   \<and> (\<not> nts_ke_pool env \<and> euid env \<noteq> 0
      \<and> 0 \<le> pledge env ''stdio rpath wpath cpath inet unix dns'' \<longrightarrow>
      installed (SYS_OpenBSD_EnableSystemCallFilter 1 SYS_MAIN_PROCESS env) =
        Some {Stdio, FileRead, FileWrite, FileCreate, Network, UnixSocket, Dns})
   \<and> (\<forall>S. installed (SYS_OpenBSD_EnableSystemCallFilter level SYS_MAIN_PROCESS env) = Some S \<longrightarrow>
          level = 1
        \<and> S = {Stdio, FileRead, FileWrite, FileCreate, Network, UnixSocket, Dns}
              \<union> (if nts_ke_pool env then {FdSend} else {})
              \<union> (if euid env = 0 then {TimeSet} else {}))"
proof (intro conjI impI allI)
  assume "nts_ke_pool env \<and> euid env = 0
      \<and> 0 \<le> pledge env ''stdio rpath wpath cpath inet unix dns sendfd settime''"
  then show "installed (SYS_OpenBSD_EnableSystemCallFilter 1 SYS_MAIN_PROCESS env) =
      Some {Stdio, FileRead, FileWrite, FileCreate, Network, UnixSocket, Dns, FdSend, TimeSet}"
    by (simp add: main_process_run installed_pledge_or_fatal capabilities_main_sendfd_settime)
next
  assume "nts_ke_pool env \<and> euid env \<noteq> 0
      \<and> 0 \<le> pledge env ''stdio rpath wpath cpath inet unix dns sendfd''"
  then show "installed (SYS_OpenBSD_EnableSystemCallFilter 1 SYS_MAIN_PROCESS env) =
      Some {Stdio, FileRead, FileWrite, FileCreate, Network, UnixSocket, Dns, FdSend}"
    by (simp add: main_process_run installed_pledge_or_fatal capabilities_main_sendfd)
next
  assume "\<not> nts_ke_pool env \<and> euid env = 0
      \<and> 0 \<le> pledge env ''stdio rpath wpath cpath inet unix dns settime''"
  then show "installed (SYS_OpenBSD_EnableSystemCallFilter 1 SYS_MAIN_PROCESS env) =
      Some {Stdio, FileRead, FileWrite, FileCreate, Network, UnixSocket, Dns, TimeSet}"
    by (simp add: main_process_run installed_pledge_or_fatal capabilities_main_settime)
next
  assume "\<not> nts_ke_pool env \<and> euid env \<noteq> 0
      \<and> 0 \<le> pledge env ''stdio rpath wpath cpath inet unix dns''"
  then show "installed (SYS_OpenBSD_EnableSystemCallFilter 1 SYS_MAIN_PROCESS env) =
      Some {Stdio, FileRead, FileWrite, FileCreate, Network, UnixSocket, Dns}"
    by (simp add: main_process_run installed_pledge_or_fatal capabilities_main)
next
  fix S
  assume i: "installed (SYS_OpenBSD_EnableSystemCallFilter level SYS_MAIN_PROCESS env) = Some S"
  show l: "level = 1"
    using i installed_unsupported_level [of level env] by (cases "level = 1") simp_all
  have "S = capabilities
      (if nts_ke_pool env then
         (if euid env = 0 then ''stdio rpath wpath cpath inet unix dns sendfd settime''
          else ''stdio rpath wpath cpath inet unix dns sendfd'')
       else
         (if euid env = 0 then ''stdio rpath wpath cpath inet unix dns settime''
          else ''stdio rpath wpath cpath inet unix dns''))"
    using i unfolding l main_process_run by (rule installed_log_loaded_Some)
  then show "S = {Stdio, FileRead, FileWrite, FileCreate, Network, UnixSocket, Dns}
      \<union> (if nts_ke_pool env then {FdSend} else {})
      \<union> (if euid env = 0 then {TimeSet} else {})"
    by (auto simp add: capabilities_main_sendfd_settime capabilities_main_sendfd
        capabilities_main_settime capabilities_main split: if_splits)
qed

theorem main_capability_set_witness:
  "nts_ke_pool \<lparr>nts_cert_and_key_files = 1, nts_server_processes = 4, euid = 0,
       pledge = (\<lambda>p. if p = ''stdio rpath wpath cpath inet unix dns sendfd settime''
                      then 0 else - 1)\<rparr>
   \<and> euid \<lparr>nts_cert_and_key_files = 1, nts_server_processes = 4, euid = 0,
       pledge = (\<lambda>p. if p = ''stdio rpath wpath cpath inet unix dns sendfd settime''
                      then 0 else - 1)\<rparr> = 0
   \<and> 0 \<le> pledge \<lparr>nts_cert_and_key_files = 1, nts_server_processes = 4, euid = 0,
       pledge = (\<lambda>p. if p = ''stdio rpath wpath cpath inet unix dns sendfd settime''
                      then 0 else - 1)\<rparr>
         ''stdio rpath wpath cpath inet unix dns sendfd settime''
   \<and> \<not> 0 \<le> pledge \<lparr>nts_cert_and_key_files = 1, nts_server_processes = 4, euid = 0,
       pledge = (\<lambda>p. if p = ''stdio rpath wpath cpath inet unix dns sendfd settime''
                      then 0 else - 1)\<rparr> ''stdio''
   \<and> installed (SYS_OpenBSD_EnableSystemCallFilter 1 SYS_MAIN_PROCESS
        \<lparr>nts_cert_and_key_files = 1, nts_server_processes = 4, euid = 0,
          pledge = (\<lambda>p. if p = ''stdio rpath wpath cpath inet unix dns sendfd settime''
                         then 0 else - 1)\<rparr>) =
       Some {Stdio, FileRead, FileWrite, FileCreate, Network, UnixSocket, Dns, FdSend, TimeSet}"
proof -
  let ?env = "\<lparr>nts_cert_and_key_files = 1, nts_server_processes = 4, euid = 0,
       pledge = (\<lambda>p. if p = ''stdio rpath wpath cpath inet unix dns sendfd settime''
                      then (0::int) else - 1)\<rparr>"
  have h1: "nts_ke_pool ?env"
    by (simp add: nts_ke_pool_def)
  have h2: "euid ?env = 0"
    by simp
  have h3: "0 \<le> pledge ?env ''stdio rpath wpath cpath inet unix dns sendfd settime''"
    by simp
  have h4: "\<not> 0 \<le> pledge ?env ''stdio''"
    by simp
  have "nts_ke_pool ?env \<and> euid ?env = 0
      \<and> 0 \<le> pledge ?env ''stdio rpath wpath cpath inet unix dns sendfd settime'' \<longrightarrow>
      installed (SYS_OpenBSD_EnableSystemCallFilter 1 SYS_MAIN_PROCESS ?env) =
        Some {Stdio, FileRead, FileWrite, FileCreate, Network, UnixSocket, Dns,
              FdSend, TimeSet}"
    using main_capability_set [of ?env 1] by (rule conjunct1)
  with h1 h2 h3 have "installed (SYS_OpenBSD_EnableSystemCallFilter 1 SYS_MAIN_PROCESS ?env) =
        Some {Stdio, FileRead, FileWrite, FileCreate, Network, UnixSocket, Dns,
              FdSend, TimeSet}"
    by blast
  with h1 h2 h3 h4 show ?thesis
    by blast
qed

text \<open>
  C7.  In the main process a level other than 1 is fatal: the call logs
  ``Unsupported filter level'' at fatal severity and the process ends there.  No pledge
  call is made, so no capability set, weaker or otherwise, is installed.
\<close>

theorem unsupported_level_is_fatal:
  assumes "level \<noteq> 1"
  shows "SYS_OpenBSD_EnableSystemCallFilter level SYS_MAIN_PROCESS env =
           Exited [Logged LOGS_FATAL ''Unsupported filter level'']
       \<and> installed (SYS_OpenBSD_EnableSystemCallFilter level SYS_MAIN_PROCESS env) = None"
  using assms by (simp add: SYS_OpenBSD_EnableSystemCallFilter_def installed_def)

theorem unsupported_level_is_fatal_witness:
  "(2::int) \<noteq> 1
   \<and> SYS_OpenBSD_EnableSystemCallFilter 2 SYS_MAIN_PROCESS
        \<lparr>nts_cert_and_key_files = 1, nts_server_processes = 4, euid = 0, pledge = (\<lambda>p. 0)\<rparr> =
       Exited [Logged LOGS_FATAL ''Unsupported filter level'']
   \<and> installed (SYS_OpenBSD_EnableSystemCallFilter 2 SYS_MAIN_PROCESS
        \<lparr>nts_cert_and_key_files = 1, nts_server_processes = 4, euid = 0, pledge = (\<lambda>p. 0)\<rparr>) =
       None"
  using unsupported_level_is_fatal [of 2
      "\<lparr>nts_cert_and_key_files = 1, nts_server_processes = 4, euid = 0, pledge = (\<lambda>p. 0)\<rparr>"]
  by (simp add: installed_def)

text \<open>
  C8.  A helper gets the set of its role whatever the level, the NTS-KE configuration and
  the effective user id are: the privileged helper exactly stdio and time-set, the NTS-KE
  helper exactly stdio and fd-receive (when the pledge call succeeds).
\<close>

theorem helper_capability_sets:
  "(0 \<le> pledge env ''stdio settime'' \<longrightarrow>
      installed (SYS_OpenBSD_EnableSystemCallFilter level SYS_PRIVOPS_HELPER env) =
        Some {Stdio, TimeSet})
   \<and> (0 \<le> pledge env ''stdio recvfd'' \<longrightarrow>
      installed (SYS_OpenBSD_EnableSystemCallFilter level SYS_NTSKE_HELPER env) =
        Some {Stdio, FdReceive})"
proof (intro conjI impI)
  assume "0 \<le> pledge env ''stdio settime''"
  then show "installed (SYS_OpenBSD_EnableSystemCallFilter level SYS_PRIVOPS_HELPER env) =
      Some {Stdio, TimeSet}"
    using installed_pledge_or_fatal [of env "''stdio settime''" SYS_PRIVOPS_HELPER]
    by (simp add: SYS_OpenBSD_EnableSystemCallFilter_def capabilities_privops)
next
  assume "0 \<le> pledge env ''stdio recvfd''"
  then show "installed (SYS_OpenBSD_EnableSystemCallFilter level SYS_NTSKE_HELPER env) =
      Some {Stdio, FdReceive}"
    using installed_pledge_or_fatal [of env "''stdio recvfd''" SYS_NTSKE_HELPER]
    by (simp add: SYS_OpenBSD_EnableSystemCallFilter_def capabilities_ntske)
qed

theorem helper_capability_sets_witness:
  "0 \<le> pledge \<lparr>nts_cert_and_key_files = 1, nts_server_processes = 4, euid = 0,
                pledge = (\<lambda>p. 0)\<rparr> ''stdio settime''
   \<and> 0 \<le> pledge \<lparr>nts_cert_and_key_files = 1, nts_server_processes = 4, euid = 0,
                pledge = (\<lambda>p. 0)\<rparr> ''stdio recvfd''
   \<and> installed (SYS_OpenBSD_EnableSystemCallFilter 3 SYS_PRIVOPS_HELPER
        \<lparr>nts_cert_and_key_files = 1, nts_server_processes = 4, euid = 0, pledge = (\<lambda>p. 0)\<rparr>) =
       Some {Stdio, TimeSet}
   \<and> installed (SYS_OpenBSD_EnableSystemCallFilter 3 SYS_NTSKE_HELPER
        \<lparr>nts_cert_and_key_files = 1, nts_server_processes = 4, euid = 0, pledge = (\<lambda>p. 0)\<rparr>) =
       Some {Stdio, FdReceive}"
  using helper_capability_sets [of
      "\<lparr>nts_cert_and_key_files = 1, nts_server_processes = 4, euid = 0, pledge = (\<lambda>p. 0)\<rparr>" 3]
  by simp

subsection \<open>RTC synchronisation\<close>

lemma set_times_append: "set_times (xs @ ys) = set_times xs @ set_times ys"
  by (simp add: set_times_def List.map_filter_def)

lemma set_times_synchronise_rtc: "set_times (synchronise_rtc diff env) = [raw_time env]"
  by (simp add: set_times_def List.map_filter_def synchronise_rtc_def Let_def)

lemma set_times_log: "set_times [Logged s m] = []"
  by (simp add: set_times_def List.map_filter_def)

lemma within_interval_unchanged:
  "\<bar>diff (last_event_time env) (last_rtc_sync d)\<bar> < 3600 \<Longrightarrow>
     set_sync_status diff env synchronised est_error max_error d = d"
  by (simp add: set_sync_status_def RTC_SYNC_INTERVAL_def Let_def)

lemma quiet_reports_unchanged:
  "\<forall>r\<in>set rs. \<bar>diff (last_event_time (fst r)) (last_rtc_sync d)\<bar> < 3600 \<Longrightarrow>
     status_reports diff d rs = d"
proof (induction rs)
  case Nil
  show ?case by simp
next
  case (Cons r rs)
  obtain env s e m where r: "r = (env, s, e, m)"
    by (cases r) auto
  from Cons.prems have "\<bar>diff (last_event_time env) (last_rtc_sync d)\<bar> < 3600"
    by (simp add: r)
  then have "set_sync_status diff env s e m d = d"
    by (rule within_interval_unchanged)
  with Cons show ?case
    by (simp add: r)
qed

lemma fired_report:
  assumes "synchronised \<noteq> 0" and "rtc_sync env \<noteq> 0"
    and "3600 \<le> \<bar>diff (last_event_time env) (last_rtc_sync d)\<bar>"
  shows "set_sync_status diff env synchronised est_error max_error d =
           d\<lparr>events := events d @ synchronise_rtc diff env
                          @ [Logged LOGS_DEBUG ''rtc synchronised''],
             last_rtc_sync := last_event_time env\<rparr>"
  using assms by (simp add: set_sync_status_def RTC_SYNC_INTERVAL_def Let_def)

text \<open>
  C4.  A status report with \<open>synchronised\<close> false, or with RTC synchronisation
  disabled in the configuration, returns at once: the driver's state, which holds
  \<open>last_rtc_sync\<close> and every event caused so far (commits and log calls), is
  unchanged, whatever the elapsed time is.
\<close>

theorem unsynchronised_or_disabled_is_noop:
  assumes "synchronised = 0 \<or> rtc_sync env = 0"
  shows "set_sync_status diff env synchronised est_error max_error d = d"
  using assms by (auto simp add: set_sync_status_def)

theorem unsynchronised_or_disabled_is_noop_witness:
  "((0::int) = 0 \<or> rtc_sync \<lparr>rtc_sync = 1, last_event_time = at_second 7200,
        raw_time = at_second 100, set_time_result = 0, raw_time_after = at_second 100\<rparr> = 0)
   \<and> set_sync_status whole_seconds
        \<lparr>rtc_sync = 1, last_event_time = at_second 7200, raw_time = at_second 100,
          set_time_result = 0, raw_time_after = at_second 100\<rparr> 0 0 0
        \<lparr>last_rtc_sync = at_second 0, events = []\<rparr> =
       \<lparr>last_rtc_sync = at_second 0, events = []\<rparr>"
  using unsynchronised_or_disabled_is_noop [of 0
      "\<lparr>rtc_sync = 1, last_event_time = at_second 7200, raw_time = at_second 100,
         set_time_result = 0, raw_time_after = at_second 100\<rparr>"
      whole_seconds 0 0 "\<lparr>last_rtc_sync = at_second 0, events = []\<rparr>"]
  by simp

text \<open>
  C2.  For a report with \<open>synchronised\<close> true and RTC synchronisation enabled: when
  the absolute value of the elapsed time since \<open>last_rtc_sync\<close> is at least 3600 s,
  one commit is attempted (with the raw time read for it), \<open>last_rtc_sync\<close> becomes
  the scheduler's timestamp, and every later sequence of reports whose timestamps stay
  within 3600 s of that one leaves the state as it is, so no second commit falls into the
  interval; when it is below 3600 s nothing happens; an elapsed time of \<open>- 3600\<close> s or
  less fires like a positive one, so a backward step does not lock the commit out.
\<close>

theorem rtc_rate_limit:
  assumes "synchronised \<noteq> 0" and "rtc_sync env \<noteq> 0"
  shows "(3600 \<le> \<bar>diff (last_event_time env) (last_rtc_sync d)\<bar> \<longrightarrow>
            set_times (events (set_sync_status diff env synchronised est_error max_error d)) =
              set_times (events d) @ [raw_time env]
          \<and> last_rtc_sync (set_sync_status diff env synchronised est_error max_error d) =
              last_event_time env
          \<and> (\<forall>rs::report list. (\<forall>r\<in>set rs. \<bar>diff (last_event_time (fst r)) (last_event_time env)\<bar> < 3600) \<longrightarrow>
                status_reports diff (set_sync_status diff env synchronised est_error max_error d) rs =
                  set_sync_status diff env synchronised est_error max_error d))
       \<and> (\<bar>diff (last_event_time env) (last_rtc_sync d)\<bar> < 3600 \<longrightarrow>
            set_sync_status diff env synchronised est_error max_error d = d)
       \<and> (diff (last_event_time env) (last_rtc_sync d) \<le> - 3600 \<longrightarrow>
            set_times (events (set_sync_status diff env synchronised est_error max_error d)) =
              set_times (events d) @ [raw_time env])"
proof (intro conjI impI allI)
  assume "\<bar>diff (last_event_time env) (last_rtc_sync d)\<bar> < 3600"
  then show "set_sync_status diff env synchronised est_error max_error d = d"
    by (rule within_interval_unchanged)
next
  assume "diff (last_event_time env) (last_rtc_sync d) \<le> - 3600"
  then have "3600 \<le> \<bar>diff (last_event_time env) (last_rtc_sync d)\<bar>"
    by simp
  then show "set_times (events (set_sync_status diff env synchronised est_error max_error d)) =
      set_times (events d) @ [raw_time env]"
    using assms
    by (simp add: fired_report set_times_append set_times_synchronise_rtc set_times_log)
next
  assume f: "3600 \<le> \<bar>diff (last_event_time env) (last_rtc_sync d)\<bar>"
  show "set_times (events (set_sync_status diff env synchronised est_error max_error d)) =
      set_times (events d) @ [raw_time env]"
    using assms f
    by (simp add: fired_report set_times_append set_times_synchronise_rtc set_times_log)
  show l: "last_rtc_sync (set_sync_status diff env synchronised est_error max_error d) =
      last_event_time env"
    using assms f by (simp add: fired_report)
  fix rs :: "report list"
  assume "\<forall>r\<in>set rs. \<bar>diff (last_event_time (fst r)) (last_event_time env)\<bar> < 3600"
  then show "status_reports diff (set_sync_status diff env synchronised est_error max_error d) rs =
      set_sync_status diff env synchronised est_error max_error d"
    using quiet_reports_unchanged [of rs diff "set_sync_status diff env synchronised est_error max_error d"]
    by (simp add: l)
qed

theorem rtc_rate_limit_witness:
  "(1::int) \<noteq> 0
   \<and> rtc_sync \<lparr>rtc_sync = 1, last_event_time = at_second 0, raw_time = at_second 100,
                 set_time_result = 0, raw_time_after = at_second 100\<rparr> \<noteq> 0
   \<and> set_times (events (set_sync_status whole_seconds
         \<lparr>rtc_sync = 1, last_event_time = at_second 0, raw_time = at_second 100,
           set_time_result = 0, raw_time_after = at_second 100\<rparr> 1 0 0
         \<lparr>last_rtc_sync = at_second (- 3600), events = []\<rparr>)) = [at_second 100]
   \<and> last_rtc_sync (set_sync_status whole_seconds
         \<lparr>rtc_sync = 1, last_event_time = at_second 0, raw_time = at_second 100,
           set_time_result = 0, raw_time_after = at_second 100\<rparr> 1 0 0
         \<lparr>last_rtc_sync = at_second (- 3600), events = []\<rparr>) = at_second 0
   \<and> set_times (events (status_reports whole_seconds
         \<lparr>last_rtc_sync = at_second (- 3600), events = []\<rparr>
         [(\<lparr>rtc_sync = 1, last_event_time = at_second 0, raw_time = at_second 100,
             set_time_result = 0, raw_time_after = at_second 100\<rparr>, 1, 0, 0),
          (\<lparr>rtc_sync = 1, last_event_time = at_second 1800, raw_time = at_second 1900,
             set_time_result = 0, raw_time_after = at_second 1900\<rparr>, 1, 0, 0),
          (\<lparr>rtc_sync = 1, last_event_time = at_second 3700, raw_time = at_second 3800,
             set_time_result = 0, raw_time_after = at_second 3800\<rparr>, 1, 0, 0)])) =
       [at_second 100, at_second 3800]"
proof -
  let ?env = "\<lparr>rtc_sync = 1, last_event_time = at_second 0, raw_time = at_second 100,
                 set_time_result = 0, raw_time_after = at_second 100\<rparr>"
  let ?d = "\<lparr>last_rtc_sync = at_second (- 3600), events = []\<rparr>"
  have h: "(1::int) \<noteq> 0" "rtc_sync ?env \<noteq> 0"
    by simp_all
  have run: "set_times (events (status_reports whole_seconds ?d
         [(?env, 1, 0, 0),
          (\<lparr>rtc_sync = 1, last_event_time = at_second 1800, raw_time = at_second 1900,
             set_time_result = 0, raw_time_after = at_second 1900\<rparr>, 1, 0, 0),
          (\<lparr>rtc_sync = 1, last_event_time = at_second 3700, raw_time = at_second 3800,
             set_time_result = 0, raw_time_after = at_second 3800\<rparr>, 1, 0, 0)])) =
       [at_second 100, at_second 3800]"
    by (simp add: set_sync_status_def whole_seconds_def at_second_def RTC_SYNC_INTERVAL_def
        synchronise_rtc_def set_times_def List.map_filter_def Let_def)
  show ?thesis
    using h run rtc_rate_limit [OF h, of whole_seconds ?d 0 0]
    by (simp add: whole_seconds_def at_second_def set_times_def List.map_filter_def)
qed

text \<open>
  C1 as stated (the failed commit leaves \<open>last_rtc_sync\<close> alone and is retried at
  the next report) fails: with the baseline at second 0, a report at second 3600 whose
  commit fails moves the baseline, and a report ten seconds later changes nothing.
\<close>

theorem failed_commit_counterexample:
  "set_time_result \<lparr>rtc_sync = 1, last_event_time = at_second 3600, raw_time = at_second 100,
        set_time_result = - 1, raw_time_after = at_second 100\<rparr> < 0
   \<and> RTC_SYNC_INTERVAL \<le> \<bar>whole_seconds (at_second 3600) (at_second 0)\<bar>
   \<and> last_rtc_sync (set_sync_status whole_seconds
        \<lparr>rtc_sync = 1, last_event_time = at_second 3600, raw_time = at_second 100,
          set_time_result = - 1, raw_time_after = at_second 100\<rparr> 1 0 0
        \<lparr>last_rtc_sync = at_second 0, events = []\<rparr>) \<noteq>
       last_rtc_sync \<lparr>last_rtc_sync = at_second 0, events = []\<rparr>
   \<and> set_sync_status whole_seconds
        \<lparr>rtc_sync = 1, last_event_time = at_second 3610, raw_time = at_second 110,
          set_time_result = 0, raw_time_after = at_second 110\<rparr> 1 0 0
        (set_sync_status whole_seconds
          \<lparr>rtc_sync = 1, last_event_time = at_second 3600, raw_time = at_second 100,
            set_time_result = - 1, raw_time_after = at_second 100\<rparr> 1 0 0
          \<lparr>last_rtc_sync = at_second 0, events = []\<rparr>) =
       set_sync_status whole_seconds
          \<lparr>rtc_sync = 1, last_event_time = at_second 3600, raw_time = at_second 100,
            set_time_result = - 1, raw_time_after = at_second 100\<rparr> 1 0 0
          \<lparr>last_rtc_sync = at_second 0, events = []\<rparr>"
  by (simp add: set_sync_status_def whole_seconds_def at_second_def RTC_SYNC_INTERVAL_def
      synchronise_rtc_def Let_def)

text \<open>
  C1, as the code has it.  When the resynchroniser fires and \<open>PRV_SetTime\<close> fails,
  the driver logs ``clock\_settime() failed'' at debug level and skips the dispersion
  notification, but \<open>set_sync_status\<close> cannot see the failure
  (\<open>synchronise_rtc\<close> returns nothing): it sets \<open>last_rtc_sync\<close> to the scheduler's
  timestamp all the same, and a report less than 3600 s later attempts nothing.
\<close>

theorem failed_commit_still_moves_baseline:
  assumes "synchronised \<noteq> 0" and "rtc_sync env \<noteq> 0"
    and "3600 \<le> \<bar>diff (last_event_time env) (last_rtc_sync d)\<bar>"
    and "set_time_result env < 0"
  shows "events (set_sync_status diff env synchronised est_error max_error d) =
           events d @ [SetTime CLOCK_REALTIME (raw_time env),
                       Logged LOGS_DEBUG ''clock_settime() failed'',
                       Logged LOGS_DEBUG ''rtc synchronised'']
       \<and> last_rtc_sync (set_sync_status diff env synchronised est_error max_error d) =
           last_event_time env
       \<and> (\<forall>env' s e m.
            \<bar>diff (last_event_time env') (last_event_time env)\<bar> < 3600 \<longrightarrow>
            set_sync_status diff env' s e m
              (set_sync_status diff env synchronised est_error max_error d) =
            set_sync_status diff env synchronised est_error max_error d)"
proof (intro conjI allI impI)
  show "events (set_sync_status diff env synchronised est_error max_error d) =
      events d @ [SetTime CLOCK_REALTIME (raw_time env),
                  Logged LOGS_DEBUG ''clock_settime() failed'',
                  Logged LOGS_DEBUG ''rtc synchronised'']"
    using assms by (simp add: fired_report synchronise_rtc_def)
  show l: "last_rtc_sync (set_sync_status diff env synchronised est_error max_error d) =
      last_event_time env"
    using assms by (simp add: fired_report)
  fix env' :: rtc_env and s :: int and e m :: real
  assume "\<bar>diff (last_event_time env') (last_event_time env)\<bar> < 3600"
  then show "set_sync_status diff env' s e m
      (set_sync_status diff env synchronised est_error max_error d) =
      set_sync_status diff env synchronised est_error max_error d"
    using within_interval_unchanged
      [of diff env' "set_sync_status diff env synchronised est_error max_error d" s e m]
    by (simp add: l)
qed

theorem failed_commit_still_moves_baseline_witness:
  "(1::int) \<noteq> 0
   \<and> rtc_sync \<lparr>rtc_sync = 1, last_event_time = at_second 3600, raw_time = at_second 100,
        set_time_result = - 1, raw_time_after = at_second 100\<rparr> \<noteq> 0
   \<and> 3600 \<le> \<bar>whole_seconds
        (last_event_time \<lparr>rtc_sync = 1, last_event_time = at_second 3600,
           raw_time = at_second 100, set_time_result = - 1, raw_time_after = at_second 100\<rparr>)
        (last_rtc_sync \<lparr>last_rtc_sync = at_second 0, events = []\<rparr>)\<bar>
   \<and> set_time_result \<lparr>rtc_sync = 1, last_event_time = at_second 3600,
        raw_time = at_second 100, set_time_result = - 1, raw_time_after = at_second 100\<rparr> < 0
   \<and> events (set_sync_status whole_seconds
        \<lparr>rtc_sync = 1, last_event_time = at_second 3600, raw_time = at_second 100,
          set_time_result = - 1, raw_time_after = at_second 100\<rparr> 1 0 0
        \<lparr>last_rtc_sync = at_second 0, events = []\<rparr>) =
       [SetTime CLOCK_REALTIME (at_second 100),
        Logged LOGS_DEBUG ''clock_settime() failed'',
        Logged LOGS_DEBUG ''rtc synchronised'']
   \<and> last_rtc_sync (set_sync_status whole_seconds
        \<lparr>rtc_sync = 1, last_event_time = at_second 3600, raw_time = at_second 100,
          set_time_result = - 1, raw_time_after = at_second 100\<rparr> 1 0 0
        \<lparr>last_rtc_sync = at_second 0, events = []\<rparr>) = at_second 3600"
proof -
  let ?env = "\<lparr>rtc_sync = 1, last_event_time = at_second 3600, raw_time = at_second 100,
                 set_time_result = - 1, raw_time_after = at_second 100\<rparr>"
  let ?d = "\<lparr>last_rtc_sync = at_second 0, events = []\<rparr>"
  have h: "(1::int) \<noteq> 0" "rtc_sync ?env \<noteq> 0"
    "3600 \<le> \<bar>whole_seconds (last_event_time ?env) (last_rtc_sync ?d)\<bar>"
    "set_time_result ?env < 0"
    by (simp_all add: whole_seconds_def at_second_def)
  show ?thesis
    using h failed_commit_still_moves_baseline [of 1 ?env whole_seconds ?d 0 0, OF h]
    by simp
qed

subsection \<open>The override of \<open>clock_settime\<close>\<close>

text \<open>
  C10.  With a clock other than \<open>CLOCK_REALTIME\<close> the override returns \<open>- 1\<close> and
  leaves the kernel as it was, whatever \<open>settimeofday\<close> would do; with
  \<open>CLOCK_REALTIME\<close> it returns what \<open>settimeofday\<close> returns on the converted
  timestamp.
\<close>

theorem clock_settime_override:
  "(clock \<noteq> CLOCK_REALTIME \<longrightarrow>
      clock_settime settimeofday UTI_TimespecToTimeval clock now k = (- 1, k))
   \<and> (clock = CLOCK_REALTIME \<longrightarrow>
      clock_settime settimeofday UTI_TimespecToTimeval clock now k =
        settimeofday (UTI_TimespecToTimeval now) k)"
  by (simp add: clock_settime_def)

theorem clock_settime_override_witness:
  "(2::int) \<noteq> CLOCK_REALTIME
   \<and> clock_settime (\<lambda>tv k. (0, tv))
        (\<lambda>ts. \<lparr>tv_secs = tv_sec ts, tv_usec = tv_nsec ts div 1000\<rparr>) 2
        \<lparr>tv_sec = 5, tv_nsec = 3000\<rparr> \<lparr>tv_secs = 1, tv_usec = 0\<rparr> =
       (- 1, \<lparr>tv_secs = 1, tv_usec = 0\<rparr>)
   \<and> clock_settime (\<lambda>tv k. (0, tv))
        (\<lambda>ts. \<lparr>tv_secs = tv_sec ts, tv_usec = tv_nsec ts div 1000\<rparr>) CLOCK_REALTIME
        \<lparr>tv_sec = 5, tv_nsec = 3000\<rparr> \<lparr>tv_secs = 1, tv_usec = 0\<rparr> =
       (0, \<lparr>tv_secs = 5, tv_usec = 3\<rparr>)"
  using
    clock_settime_override [of 2 "\<lambda>tv k. (0, tv)"
      "\<lambda>ts. \<lparr>tv_secs = tv_sec ts, tv_usec = tv_nsec ts div 1000\<rparr>"
      "\<lparr>tv_sec = 5, tv_nsec = 3000\<rparr>" "\<lparr>tv_secs = 1, tv_usec = 0\<rparr>"]
    clock_settime_override [of CLOCK_REALTIME "\<lambda>tv k. (0, tv)"
      "\<lambda>ts. \<lparr>tv_secs = tv_sec ts, tv_usec = tv_nsec ts div 1000\<rparr>"
      "\<lparr>tv_sec = 5, tv_nsec = 3000\<rparr>" "\<lparr>tv_secs = 1, tv_usec = 0\<rparr>"]
  by (simp add: CLOCK_REALTIME_def)

subsection \<open>Rounding to double\<close>

lemma round_even_error: "\<bar>of_int (round_even x) - x\<bar> \<le> 1 / 2"
  unfolding round_even_def Let_def by (auto; linarith)

lemma ilog2_lower_ge1:
  assumes "1 \<le> x"
  shows "2 powi (ilog2 x) \<le> x" and "x < 2 powi (ilog2 x + 1)"
proof -
  let ?n = "\<lfloor>x\<rfloor>"
  have n: "0 < ?n" using assms by simp
  have b: "1 \<le> bitlen ?n"
    using n bitlen_eq_zero_iff [of ?n] bitlen_nonneg [of ?n] by linarith
  from bitlen_bounds [OF n]
  have lo: "2 ^ nat (bitlen ?n - 1) \<le> ?n" and hi: "?n < 2 ^ nat (bitlen ?n)"
    by simp_all
  have e: "ilog2 x = bitlen ?n - 1"
    using assms by (simp add: ilog2_def)
  have "(2::real) powi (bitlen ?n - 1) = 2 ^ nat (bitlen ?n - 1)"
    using b by (simp add: power_int_def)
  also have "\<dots> = of_int (2 ^ nat (bitlen ?n - 1))" by simp
  also have "\<dots> \<le> of_int ?n" using lo by (simp only: of_int_le_iff)
  also have "\<dots> \<le> x" by simp
  finally show "2 powi (ilog2 x) \<le> x" by (simp add: e)
  have "?n + 1 \<le> 2 ^ nat (bitlen ?n)" using hi by simp
  then have "of_int (?n + 1) \<le> (of_int (2 ^ nat (bitlen ?n)) :: real)"
    by (simp only: of_int_le_iff)
  then have "real_of_int ?n + 1 \<le> 2 ^ nat (bitlen ?n)" by simp
  moreover have "x < real_of_int ?n + 1" by linarith
  ultimately have "x < 2 ^ nat (bitlen ?n)" by linarith
  also have "\<dots> = 2 powi (bitlen ?n)"
    using b by (simp add: power_int_def)
  finally show "x < 2 powi (ilog2 x + 1)" by (simp add: e)
qed

lemma ilog2_bounds_lt1:
  assumes "0 < x" and "x < 1"
  shows "2 powi (ilog2 x) \<le> x" and "x < 2 powi (ilog2 x + 1)"
proof -
  let ?m = "\<lceil>1 / x\<rceil>"
  let ?j = "bitlen (?m - 1)"
  have inv: "1 < 1 / x" using assms by simp
  then have m: "0 < ?m - 1" by linarith
  have b: "1 \<le> ?j"
    using m bitlen_eq_zero_iff [of "?m - 1"] bitlen_nonneg [of "?m - 1"] by linarith
  from bitlen_bounds [OF m]
  have lo: "2 ^ nat (?j - 1) \<le> ?m - 1" and hi: "?m - 1 < 2 ^ nat ?j"
    by simp_all
  have e: "ilog2 x = - ?j"
    using assms by (simp add: ilog2_def)
  have pj: "(2::real) powi ?j = 2 ^ nat ?j"
    using b by (simp add: power_int_def)
  have pj1: "(2::real) powi (?j - 1) = 2 ^ nat (?j - 1)"
    using b by (simp add: power_int_def)
  have "?m \<le> 2 ^ nat ?j" using hi by simp
  then have "of_int ?m \<le> (of_int (2 ^ nat ?j) :: real)"
    by (simp only: of_int_le_iff)
  then have "real_of_int ?m \<le> 2 ^ nat ?j" by simp
  moreover have "1 / x \<le> real_of_int ?m" by linarith
  ultimately have "1 / x \<le> 2 powi ?j" using pj by linarith
  then have "1 \<le> 2 powi ?j * x"
    using assms(1) by (simp add: field_simps)
  then have "1 / 2 powi ?j \<le> x"
    by (simp add: field_simps)
  then show "2 powi (ilog2 x) \<le> x"
    by (simp add: e power_int_minus field_simps)
  have "of_int (2 ^ nat (?j - 1)) \<le> (of_int (?m - 1) :: real)"
    using lo by (simp only: of_int_le_iff)
  then have "2 ^ nat (?j - 1) \<le> real_of_int ?m - 1" by simp
  moreover have "real_of_int ?m - 1 < 1 / x" by linarith
  ultimately have "2 powi (?j - 1) < 1 / x" using pj1 by linarith
  then have "2 powi (?j - 1) * x < 1"
    using assms(1) by (simp add: field_simps)
  then have "x < 1 / 2 powi (?j - 1)"
    by (simp add: field_simps)
  also have "\<dots> = 2 powi (ilog2 x + 1)"
  proof -
    have "ilog2 x + 1 = - (?j - 1)" using e by simp
    then show ?thesis
      by (simp only: power_int_minus inverse_eq_divide)
  qed
  finally show "x < 2 powi (ilog2 x + 1)" .
qed

lemma ilog2_bounds:
  assumes "0 < x"
  shows "2 powi (ilog2 x) \<le> x" and "x < 2 powi (ilog2 x + 1)"
  using assms ilog2_lower_ge1 [of x] ilog2_bounds_lt1 [of x]
  by (cases "1 \<le> x"; simp)+

lemma to_double_error:
  assumes "x \<noteq> 0"
  shows "\<bar>to_double x - x\<bar> \<le> 2 powi (max (ilog2 \<bar>x\<bar>) (- 1022) - 52) / 2"
proof -
  define ulp :: real where "ulp = 2 powi (max (ilog2 \<bar>x\<bar>) (- 1022) - 52)"
  have pos: "0 < ulp" by (simp add: ulp_def)
  have td: "to_double x = of_int (round_even (x / ulp)) * ulp"
    using assms by (simp add: to_double_def Let_def ulp_def)
  have "\<bar>of_int (round_even (x / ulp)) - x / ulp\<bar> * ulp \<le> 1 / 2 * ulp"
    using round_even_error [of "x / ulp"] pos by (intro mult_right_mono) simp_all
  moreover have "\<bar>of_int (round_even (x / ulp)) - x / ulp\<bar> * ulp =
      \<bar>of_int (round_even (x / ulp)) * ulp - x\<bar>"
  proof -
    have "\<bar>of_int (round_even (x / ulp)) - x / ulp\<bar> * ulp =
        \<bar>(of_int (round_even (x / ulp)) - x / ulp) * ulp\<bar>"
      using pos by (simp add: abs_mult)
    also have "(of_int (round_even (x / ulp)) - x / ulp) * ulp =
        of_int (round_even (x / ulp)) * ulp - x"
      using pos by (simp add: field_simps)
    finally show ?thesis .
  qed
  ultimately have "\<bar>of_int (round_even (x / ulp)) * ulp - x\<bar> \<le> ulp / 2"
    by linarith
  then show ?thesis
    unfolding td ulp_def .
qed

lemma to_double_zero: "to_double 0 = 0"
  by (simp add: to_double_def)

lemma to_double_normal:
  assumes "2 powi (- 1022) \<le> \<bar>x\<bar>"
  shows "\<bar>to_double x - x\<bar> \<le> \<bar>x\<bar> / 2 ^ 53"
proof -
  have pos: "0 < \<bar>x\<bar>"
    using assms by (smt (verit) zero_less_power_int)
  then have nz: "x \<noteq> 0" by simp
  let ?e = "ilog2 \<bar>x\<bar>"
  have lo: "2 powi ?e \<le> \<bar>x\<bar>" and hi: "\<bar>x\<bar> < 2 powi (?e + 1)"
    using ilog2_bounds [OF pos] by simp_all
  have "(2::real) powi (- 1022) < 2 powi (?e + 1)"
    using assms hi by linarith
  then have "- 1022 < ?e + 1"
    using power_int_increasing [of "?e + 1" "- 1022" "2::real"] by fastforce
  then have m: "max ?e (- 1022) = ?e" by simp
  have "(2::real) powi (?e - 52) / 2 = 2 powi ?e / 2 ^ 53"
    by (simp add: power_int_diff)
  also have "\<dots> \<le> \<bar>x\<bar> / 2 ^ 53"
    using lo by (simp add: divide_right_mono)
  finally have "(2::real) powi (?e - 52) / 2 \<le> \<bar>x\<bar> / 2 ^ 53" .
  moreover have "\<bar>to_double x - x\<bar> \<le> 2 powi (?e - 52) / 2"
    using to_double_error [OF nz] by (simp only: m)
  ultimately show ?thesis
    by linarith
qed

lemma to_double_tiny:
  assumes "\<bar>x\<bar> < 2 powi (- 1022)"
  shows "\<bar>to_double x\<bar> < 1"
proof (cases "x = 0")
  case True
  then show ?thesis by (simp add: to_double_zero)
next
  case False
  then have pos: "0 < \<bar>x\<bar>" by simp
  let ?e = "ilog2 \<bar>x\<bar>"
  have "(2::real) powi ?e < 2 powi (- 1022)"
    using ilog2_bounds(1) [OF pos] assms by linarith
  then have "?e < - 1022"
    using power_int_increasing [of "- 1022" ?e "2::real"] by fastforce
  then have m: "max ?e (- 1022) = - 1022" by simp
  have "\<bar>to_double x - x\<bar> \<le> 2 powi (- 1022 - 52) / 2"
    using to_double_error [OF False] by (simp only: m)
  moreover have "(2::real) powi (- 1022 - 52) \<le> 2 powi (- 2)"
    by (rule power_int_increasing) simp_all
  moreover have "(2::real) powi (- 1022) \<le> 2 powi (- 2)"
    by (rule power_int_increasing) simp_all
  moreover have "(2::real) powi (- 2) = 1 / 4"
    by (simp add: power_int_minus)
  ultimately show ?thesis
    using assms by linarith
qed

lemma trunc_error: "\<bar>of_int (trunc x) - x\<bar> < 1"
  unfolding trunc_def by (auto; linarith)

lemma trunc_le: "\<bar>real_of_int (trunc x)\<bar> \<le> \<bar>x\<bar>"
  unfolding trunc_def by (auto; linarith)

lemma trunc_small: "\<bar>x\<bar> < 1 \<Longrightarrow> trunc x = 0"
  unfolding trunc_def by (auto; linarith)

lemma to_double_of_int:
  "\<bar>to_double (of_int n) - of_int n\<bar> \<le> \<bar>of_int n\<bar> / 2 ^ 53"
proof (cases "n = 0")
  case True
  then show ?thesis by (simp add: to_double_zero)
next
  case False
  then have "1 \<le> \<bar>n\<bar>" by linarith
  then have "real_of_int 1 \<le> real_of_int \<bar>n\<bar>"
    by (simp only: of_int_le_iff)
  then have "1 \<le> \<bar>real_of_int n\<bar>" by simp
  moreover have "(2::real) powi (- 1022) \<le> 2 powi 0"
    by (rule power_int_increasing) simp_all
  ultimately have "2 powi (- 1022) \<le> \<bar>real_of_int n\<bar>"
    by simp
  then show ?thesis
    by (rule to_double_normal)
qed


subsection \<open>Frequency conversion\<close>

lemma scale_exact: "int64_to_double (push_bit 32 1000) = 4294967296000"
  by (simp add: int64_to_double_def to_double_def ilog2_def compute_bitlen round_even_def Let_def)

lemma sint_word_of_int_64:
  "- (2 ^ 63) \<le> t \<Longrightarrow> t < 2 ^ 63 \<Longrightarrow> sint (word_of_int t :: 64 word) = t"
  by (simp add: signed_of_int signed_take_bit_int_eq_self)

lemma sint_neg_word_of_int_64:
  "- (2 ^ 63) < t \<Longrightarrow> t < 2 ^ 63 \<Longrightarrow> sint (- word_of_int t :: 64 word) = - t"
  using sint_word_of_int_64 [of "- t"] by simp

lemma sint_neg_64:
  assumes "sint (w :: 64 word) \<noteq> - (2 ^ 63)"
  shows "sint (- w) = - sint w"
proof -
  have r: "- (2 ^ 63) \<le> sint w \<and> sint w < 2 ^ 63"
    using sint_range_size [of w] by (simp add: word_size)
  have "sint (- word_of_int (sint w) :: 64 word) = - sint w"
    using r assms by (intro sint_neg_word_of_int_64) simp_all
  then show ?thesis by simp
qed


lemma tiny_less_quarter: "(2::real) powi (- 1022) \<le> 1 / 4"
proof -
  have "(2::real) powi (- 1022) \<le> 2 powi (- 2)"
    by (rule power_int_increasing) simp_all
  then show ?thesis by (simp add: power_int_minus)
qed

lemma tiny_less_scale: "(2::real) powi (- 1022) \<le> 1 / (2 * 4294967296000)"
proof -
  have "(2::real) powi (- 1022) \<le> 2 powi (- 44)"
    by (rule power_int_increasing) simp_all
  also have "\<dots> = 1 / 2 ^ 44" by (simp add: power_int_minus)
  also have "\<dots> \<le> 1 / (2 * 4294967296000)" by simp
  finally show ?thesis .
qed

text \<open>The value handed to the kernel, for a request within the bound of the caller.\<close>

lemma kernel_value:
  assumes "\<bar>ppm\<bar> \<le> 100000"
  defines "t \<equiv> trunc (to_double (- ppm * 4294967296000))"
  shows "\<bar>t\<bar> < 2 ^ 60"
    and "\<bar>real_of_int t + ppm * 4294967296000\<bar> < 1 + \<bar>ppm\<bar> * 4294967296000 / 2 ^ 53"
proof -
  define p where "p = - ppm * 4294967296000"
  define y where "y = to_double p"
  have t: "t = trunc y" by (simp add: t_def y_def p_def)
  have pb: "\<bar>p\<bar> \<le> 429496729600000000" and pp: "\<bar>p\<bar> = \<bar>ppm\<bar> * 4294967296000"
    using assms(1) by (simp_all add: p_def abs_mult)
  have e53: "(2::real) ^ 53 = 9007199254740992" and e60: "(2::real) ^ 60 = 1152921504606846976"
    by simp_all
  have both: "\<bar>real_of_int t\<bar> < 2 ^ 60 \<and> \<bar>real_of_int t - p\<bar> < 1 + \<bar>p\<bar> / 2 ^ 53"
  proof (cases "\<bar>p\<bar> < 2 powi (- 1022)")
    case True
    then have "\<bar>y\<bar> < 1" unfolding y_def by (rule to_double_tiny)
    then have "t = 0" unfolding t by (rule trunc_small)
    then show ?thesis using True tiny_less_quarter by simp
  next
    case False
    then have "\<bar>y - p\<bar> \<le> \<bar>p\<bar> / 2 ^ 53"
      unfolding y_def by (intro to_double_normal) simp
    moreover have "\<bar>real_of_int t - y\<bar> < 1" "\<bar>real_of_int t\<bar> \<le> \<bar>y\<bar>"
      unfolding t by (rule trunc_error, rule trunc_le)
    ultimately have "\<bar>real_of_int t\<bar> < 1152921504606846976"
      and "\<bar>real_of_int t - p\<bar> < 1 + \<bar>p\<bar> / 9007199254740992"
      using pb unfolding e53 by linarith+
    then show ?thesis by (simp only: e53 e60)
  qed
  then have "real_of_int \<bar>t\<bar> < real_of_int (2 ^ 60)" by simp
  then show "\<bar>t\<bar> < 2 ^ 60" by (simp only: of_int_less_iff)
  show "\<bar>real_of_int t + ppm * 4294967296000\<bar> < 1 + \<bar>ppm\<bar> * 4294967296000 / 2 ^ 53"
    using both by (simp add: p_def abs_mult)
qed


lemma abs_div_scale: "\<bar>a / 4294967296000\<bar> = \<bar>a\<bar> / (4294967296000::real)"
  by simp

lemma error_sum:
  fixes G A B C D V W X :: real
  assumes "G \<le> A + B + C + D"
    and "A \<le> V / 9007199254740992"
    and "B \<le> W / 9007199254740992"
    and "C < 1 / 4294967296000"
    and "D \<le> X / 9007199254740992"
    and "W \<le> X + X / 9007199254740992"
    and "V \<le> W + W / 9007199254740992"
    and "0 \<le> X"
  shows "G < 1 / 4294967296000 + X / 2251799813685248"
  using assms by linarith

lemma read_back_bound:
  assumes "\<bar>ppm\<bar> \<le> 100000"
  defines "t \<equiv> trunc (to_double (- ppm * 4294967296000))"
  shows "\<bar>to_double (to_double (of_int (- t)) / 4294967296000) - ppm\<bar>
           < 1 / 4294967296000 + \<bar>ppm\<bar> / 2 ^ 51"
proof -
  define p where "p = - ppm * 4294967296000"
  define y where "y = to_double p"
  define T where "T = real_of_int t"
  define v where "v = to_double (of_int (- t))"
  define q where "q = v / 4294967296000"
  define r where "r = to_double q"
  have t: "t = trunc y" by (simp add: t_def y_def p_def)
  have e53: "(2::real) ^ 53 = 9007199254740992" and e51: "(2::real) ^ 51 = 2251799813685248"
    by simp_all
  have pp: "\<bar>p\<bar> = \<bar>ppm\<bar> * 4294967296000"
    by (simp add: p_def abs_mult)
  have vT: "\<bar>v + T\<bar> \<le> \<bar>T\<bar> / 9007199254740992"
    using to_double_of_int [of "- t"] by (simp add: v_def T_def e53)
  have rq: "\<bar>r - q\<bar> \<le> \<bar>q\<bar> / 9007199254740992"
  proof (cases "t = 0")
    case True
    then have "q = 0" by (simp add: q_def v_def to_double_zero)
    then show ?thesis by (simp add: r_def to_double_zero)
  next
    case False
    then have "1 \<le> \<bar>t\<bar>" by linarith
    then have "real_of_int 1 \<le> real_of_int \<bar>t\<bar>"
      by (simp only: of_int_le_iff)
    then have "1 \<le> \<bar>T\<bar>" by (simp add: T_def)
    with vT have "1 / 2 \<le> \<bar>v\<bar>" by linarith
    then have "1 / (2 * 4294967296000) \<le> \<bar>q\<bar>"
      by (simp add: q_def)
    with tiny_less_scale have "2 powi (- 1022) \<le> \<bar>q\<bar>" by linarith
    then show ?thesis
      unfolding r_def using to_double_normal [of q] by (simp add: e53)
  qed
  have goal: "\<bar>r - ppm\<bar> < 1 / 4294967296000 + \<bar>ppm\<bar> / 2251799813685248"
  proof (cases "\<bar>p\<bar> < 2 powi (- 1022)")
    case True
    then have "\<bar>y\<bar> < 1" unfolding y_def by (rule to_double_tiny)
    then have "t = 0" unfolding t by (rule trunc_small)
    then have "r = 0" by (simp add: r_def q_def v_def to_double_zero)
    moreover have "\<bar>ppm\<bar> * 4294967296000 < 1 / 4"
      using True tiny_less_quarter pp by linarith
    ultimately show ?thesis by simp
  next
    case False
    then have yp: "\<bar>y - p\<bar> \<le> \<bar>p\<bar> / 9007199254740992"
      unfolding y_def using to_double_normal [of p] by (simp add: e53)
    have Ty: "\<bar>T - y\<bar> < 1" and Tle: "\<bar>T\<bar> \<le> \<bar>y\<bar>"
      unfolding t T_def by (rule trunc_error, rule trunc_le)
    have y1: "\<bar>y\<bar> \<le> \<bar>p\<bar> + \<bar>p\<bar> / 9007199254740992"
      using yp by linarith
    have T1: "\<bar>T\<bar> \<le> \<bar>p\<bar> + \<bar>p\<bar> / 9007199254740992"
      using y1 Tle by linarith
    have v1: "\<bar>v\<bar> \<le> \<bar>T\<bar> + \<bar>T\<bar> / 9007199254740992"
      using vT by linarith
    have q1: "\<bar>q\<bar> = \<bar>v\<bar> / 4294967296000"
      by (simp add: q_def)
    have d1: "\<bar>r - q\<bar> \<le> \<bar>v\<bar> / 4294967296000 / 9007199254740992"
      using rq q1 by simp
    have d2: "\<bar>q + T / 4294967296000\<bar> \<le> \<bar>T\<bar> / 4294967296000 / 9007199254740992"
    proof -
      have "q + T / 4294967296000 = (v + T) / 4294967296000"
        by (simp add: q_def add_divide_distrib)
      then have "\<bar>q + T / 4294967296000\<bar> = \<bar>v + T\<bar> / 4294967296000"
        by (simp only: abs_div_scale)
      with vT show ?thesis by (simp add: divide_right_mono)
    qed
    have d3: "\<bar>T / 4294967296000 - y / 4294967296000\<bar> < 1 / 4294967296000"
    proof -
      have "T / 4294967296000 - y / 4294967296000 = (T - y) / 4294967296000"
        by (simp add: diff_divide_distrib)
      then have "\<bar>T / 4294967296000 - y / 4294967296000\<bar> = \<bar>T - y\<bar> / 4294967296000"
        by (simp only: abs_div_scale)
      with Ty show ?thesis by (simp add: divide_strict_right_mono)
    qed
    have d4: "\<bar>y / 4294967296000 + ppm\<bar> \<le> \<bar>ppm\<bar> / 9007199254740992"
    proof -
      have "y / 4294967296000 + ppm = (y - p) / 4294967296000"
        by (simp add: p_def diff_divide_distrib)
      then have "\<bar>y / 4294967296000 + ppm\<bar> = \<bar>y - p\<bar> / 4294967296000"
        by (simp only: abs_div_scale)
      also have "\<dots> \<le> \<bar>p\<bar> / 9007199254740992 / 4294967296000"
        using yp by (simp add: divide_right_mono)
      also have "\<dots> = \<bar>ppm\<bar> / 9007199254740992"
        by (simp add: pp)
      finally show ?thesis .
    qed
    have T2: "\<bar>T\<bar> / 4294967296000 \<le> \<bar>ppm\<bar> + \<bar>ppm\<bar> / 9007199254740992"
      using T1 pp by simp
    have v2: "\<bar>v\<bar> / 4294967296000 \<le>
        \<bar>T\<bar> / 4294967296000 + \<bar>T\<bar> / 4294967296000 / 9007199254740992"
      using v1 by simp
    have tri: "\<bar>r - ppm\<bar> \<le> \<bar>r - q\<bar> + \<bar>q + T / 4294967296000\<bar>
        + \<bar>T / 4294967296000 - y / 4294967296000\<bar> + \<bar>y / 4294967296000 + ppm\<bar>"
      by linarith
    show ?thesis
      by (rule error_sum [OF tri d1 d2 d3 d4 T2 v2]) simp
  qed
  then show ?thesis
    by (simp add: r_def q_def v_def e51)
qed


lemma scale_numeral: "(1000 * 2 ^ 32 :: real) = 4294967296000"
  by simp

lemma set_frequency_in_range:
  assumes "\<bar>ppm\<bar> \<le> 100000"
  shows "set_frequency prv_adjust_freq ppm k =
     (case prv_adjust_freq (Some (word_of_int (trunc (to_double (- ppm * 4294967296000))))) k of
        (rc, old, k') \<Rightarrow>
          if rc \<noteq> 0 then Fatal ''adjfreq() failed'' else read_frequency prv_adjust_freq k')"
proof -
  have "\<bar>trunc (to_double (- ppm * 4294967296000))\<bar> < 2 ^ 60"
    using assms by (rule kernel_value(1))
  then have "- (2 ^ 63) \<le> trunc (to_double (- ppm * 4294967296000))
      \<and> trunc (to_double (- ppm * 4294967296000)) < 2 ^ 63"
    by (auto simp add: abs_less_iff)
  then show ?thesis
    unfolding set_frequency_def double_mul_def scale_exact
    by (simp add: double_to_int64_def Let_def)
qed

lemma read_frequency_value:
  "read_frequency prv_adjust_freq k =
     (case prv_adjust_freq None k of
        (rc, freq, k') \<Rightarrow>
          if rc \<noteq> 0 then Fatal ''adjfreq() failed''
          else if sint freq = - (2 ^ 63) then Undefined
          else Returns (to_double (to_double (- real_of_int (sint freq)) / 4294967296000), k'))"
  unfolding read_frequency_def double_div_def scale_exact
  by (simp add: int64_to_double_def sint_neg_64 split: prod.splits)

text \<open>
  C6.  For a request within the caller's bound of 100000 ppm, and any behaviour of the
  kernel call: \<open>set_frequency\<close> hands the kernel the 64-bit value \<open>f\<close>, the product
  \<open>- ppm * (1000 * 2 ^ 32)\<close> computed in double and cut to an integer (so within one unit
  and one rounding of the exact product), is fatal when the call fails, and otherwise
  returns what \<open>read_frequency\<close> returns in the state the kernel is then in;
  \<open>read_frequency\<close> converts the value \<open>freq\<close> that the kernel reports to
  \<open>- freq / (1000 * 2 ^ 32)\<close>, computed in double.  The value returned is thus a
  function of what the kernel reports, not of the argument.
\<close>

theorem set_frequency_reads_back:
  assumes "\<bar>ppm\<bar> \<le> 100000"
  shows "(\<exists>f. sint f = trunc (to_double (- ppm * (1000 * 2 ^ 32)))
           \<and> \<bar>real_of_int (sint f) - (- ppm * (1000 * 2 ^ 32))\<bar>
               < 1 + \<bar>ppm\<bar> * (1000 * 2 ^ 32) / 2 ^ 53
           \<and> set_frequency prv_adjust_freq ppm k =
               (case prv_adjust_freq (Some f) k of
                  (rc, old, k') \<Rightarrow>
                    if rc \<noteq> 0 then Fatal ''adjfreq() failed''
                    else read_frequency prv_adjust_freq k'))
       \<and> (\<forall>k'. read_frequency prv_adjust_freq k' =
           (case prv_adjust_freq None k' of
              (rc, freq, k'') \<Rightarrow>
                if rc \<noteq> 0 then Fatal ''adjfreq() failed''
                else if sint freq = - (2 ^ 63) then Undefined
                else Returns
                  (to_double (to_double (- real_of_int (sint freq)) / (1000 * 2 ^ 32)), k'')))"
proof (intro conjI allI)
  let ?t = "trunc (to_double (- ppm * 4294967296000))"
  have r: "\<bar>?t\<bar> < 2 ^ 60"
    and b: "\<bar>real_of_int ?t + ppm * 4294967296000\<bar> < 1 + \<bar>ppm\<bar> * 4294967296000 / 2 ^ 53"
    using assms by (rule kernel_value(1), rule kernel_value(2))
  have s: "sint (word_of_int ?t :: 64 word) = ?t"
    using r by (intro sint_word_of_int_64) (auto simp add: abs_less_iff)
  show "\<exists>f. sint f = trunc (to_double (- ppm * (1000 * 2 ^ 32)))
           \<and> \<bar>real_of_int (sint f) - (- ppm * (1000 * 2 ^ 32))\<bar>
               < 1 + \<bar>ppm\<bar> * (1000 * 2 ^ 32) / 2 ^ 53
           \<and> set_frequency prv_adjust_freq ppm k =
               (case prv_adjust_freq (Some f) k of
                  (rc, old, k') \<Rightarrow>
                    if rc \<noteq> 0 then Fatal ''adjfreq() failed''
                    else read_frequency prv_adjust_freq k')"
    unfolding scale_numeral
    using s b set_frequency_in_range [OF assms, of prv_adjust_freq k]
    by (intro exI [of _ "word_of_int ?t"]) simp
next
  fix k'
  show "read_frequency prv_adjust_freq k' =
           (case prv_adjust_freq None k' of
              (rc, freq, k'') \<Rightarrow>
                if rc \<noteq> 0 then Fatal ''adjfreq() failed''
                else if sint freq = - (2 ^ 63) then Undefined
                else Returns
                  (to_double (to_double (- real_of_int (sint freq)) / (1000 * 2 ^ 32)), k''))"
    unfolding scale_numeral by (rule read_frequency_value)
qed

theorem set_frequency_reads_back_witness:
  "\<bar>1 / 2 :: real\<bar> \<le> 100000
   \<and> ((\<exists>f. sint f = trunc (to_double (- (1 / 2) * (1000 * 2 ^ 32)))
           \<and> \<bar>real_of_int (sint f) - (- (1 / 2) * (1000 * 2 ^ 32))\<bar>
               < 1 + \<bar>1 / 2\<bar> * (1000 * 2 ^ 32) / 2 ^ 53
           \<and> set_frequency PRV_AdjustFreq (1 / 2)
                 \<lparr>frequency = 0, residual = \<lparr>tv_secs = 0, tv_usec = 0\<rparr>, rejecting = False\<rparr> =
               (case PRV_AdjustFreq (Some f)
                       \<lparr>frequency = 0, residual = \<lparr>tv_secs = 0, tv_usec = 0\<rparr>,
                         rejecting = False\<rparr> of
                  (rc, old, k') \<Rightarrow>
                    if rc \<noteq> 0 then Fatal ''adjfreq() failed''
                    else read_frequency PRV_AdjustFreq k'))
       \<and> (\<forall>k'. read_frequency PRV_AdjustFreq k' =
           (case PRV_AdjustFreq None k' of
              (rc, freq, k'') \<Rightarrow>
                if rc \<noteq> 0 then Fatal ''adjfreq() failed''
                else if sint freq = - (2 ^ 63) then Undefined
                else Returns
                  (to_double (to_double (- real_of_int (sint freq)) / (1000 * 2 ^ 32)), k''))))"
proof -
  have h: "\<bar>1 / 2 :: real\<bar> \<le> 100000"
    by simp
  show ?thesis
    using h set_frequency_reads_back [OF h, of PRV_AdjustFreq
        "\<lparr>frequency = 0, residual = \<lparr>tv_secs = 0, tv_usec = 0\<rparr>, rejecting = False\<rparr>"]
    by (rule conjI)
qed

lemma exact_kernel_round_trip:
  assumes "\<bar>ppm\<bar> \<le> 100000" and "\<not> rejecting k"
  defines "t \<equiv> trunc (to_double (- ppm * 4294967296000))"
  defines "r \<equiv> to_double (to_double (of_int (- t)) / 4294967296000)"
  shows "set_frequency PRV_AdjustFreq ppm k = Returns (r, k\<lparr>frequency := word_of_int t\<rparr>)"
    and "read_frequency PRV_AdjustFreq (k\<lparr>frequency := word_of_int t\<rparr>) =
           Returns (r, k\<lparr>frequency := word_of_int t\<rparr>)"
proof -
  have "\<bar>t\<bar> < 2 ^ 60"
    unfolding t_def using assms(1) by (rule kernel_value(1))
  then have rng: "- (2 ^ 63) < t \<and> t < 2 ^ 63"
    by (auto simp add: abs_less_iff)
  then have s: "sint (word_of_int t :: 64 word) = t"
    by (intro sint_word_of_int_64) simp_all
  show rd: "read_frequency PRV_AdjustFreq (k\<lparr>frequency := word_of_int t\<rparr>) =
      Returns (r, k\<lparr>frequency := word_of_int t\<rparr>)"
    using assms(2) rng s by (simp add: read_frequency_value PRV_AdjustFreq_def r_def)
  show "set_frequency PRV_AdjustFreq ppm k = Returns (r, k\<lparr>frequency := word_of_int t\<rparr>)"
    using assms(2) rd
    by (simp add: set_frequency_in_range [OF assms(1)] PRV_AdjustFreq_def t_def)
qed

text \<open>
  C5, as the code has it.  On a kernel that stores the committed value unchanged, and for
  \<open>ppm\<close> within 100000 of zero, \<open>set_frequency\<close> and a following
  \<open>read_frequency\<close> return the same value \<open>r\<close>, and \<open>r\<close> differs from
  \<open>ppm\<close> by less than one unit of the fixed-point format plus \<open>\<bar>ppm\<bar> / 2 ^ 51\<close>, the
  share of the roundings of the double arithmetic.
\<close>

theorem round_trip_within_rounding:
  assumes "\<bar>ppm\<bar> \<le> 100000" and "\<not> rejecting k"
  shows "\<exists>r k'. set_frequency PRV_AdjustFreq ppm k = Returns (r, k')
           \<and> read_frequency PRV_AdjustFreq k' = Returns (r, k')
           \<and> \<bar>r - ppm\<bar> < 1 / (1000 * 2 ^ 32) + \<bar>ppm\<bar> / 2 ^ 51"
proof -
  let ?t = "trunc (to_double (- ppm * 4294967296000))"
  let ?r = "to_double (to_double (of_int (- ?t)) / 4294967296000)"
  have "\<bar>?r - ppm\<bar> < 1 / 4294967296000 + \<bar>ppm\<bar> / 2 ^ 51"
    using assms(1) by (rule read_back_bound)
  then have "\<bar>?r - ppm\<bar> < 1 / (1000 * 2 ^ 32) + \<bar>ppm\<bar> / 2 ^ 51"
    by (simp only: scale_numeral)
  with exact_kernel_round_trip [OF assms] show ?thesis
    by blast
qed

theorem round_trip_within_rounding_witness:
  "\<bar>1 :: real\<bar> \<le> 100000
   \<and> \<not> rejecting \<lparr>frequency = 0, residual = \<lparr>tv_secs = 0, tv_usec = 0\<rparr>, rejecting = False\<rparr>
   \<and> (\<exists>r k'. set_frequency PRV_AdjustFreq 1
                 \<lparr>frequency = 0, residual = \<lparr>tv_secs = 0, tv_usec = 0\<rparr>, rejecting = False\<rparr> =
               Returns (r, k')
             \<and> read_frequency PRV_AdjustFreq k' = Returns (r, k')
             \<and> \<bar>r - 1\<bar> < 1 / (1000 * 2 ^ 32) + \<bar>1\<bar> / 2 ^ 51)"
  using round_trip_within_rounding [of 1
      "\<lparr>frequency = 0, residual = \<lparr>tv_secs = 0, tv_usec = 0\<rparr>, rejecting = False\<rparr>"]
  by simp

text \<open>
  C5 as stated (the round trip stays within one unit \<open>1 / (1000 * 2 ^ 32)\<close>) fails.
  The double \<open>98304 + 107 / 2 ^ 36\<close> is within the range; the product with
  \<open>1000 * 2 ^ 32\<close> needs 60 bits and is rounded by 63 units, the kernel gets
  \<open>- 422212465065990656\<close>, and the quotient read back is the neighbouring double
  \<open>98304 + 106 / 2 ^ 36\<close>: the difference \<open>1 / 2 ^ 36\<close> is more than 62 units.
\<close>

theorem round_trip_counterexample:
  "\<bar>98304 + 107 / 2 ^ 36 :: real\<bar> \<le> 100000
   \<and> to_double (98304 + 107 / 2 ^ 36) = 98304 + 107 / 2 ^ 36
   \<and> set_frequency PRV_AdjustFreq (98304 + 107 / 2 ^ 36)
        \<lparr>frequency = 0, residual = \<lparr>tv_secs = 0, tv_usec = 0\<rparr>, rejecting = False\<rparr> =
       Returns (98304 + 106 / 2 ^ 36,
         \<lparr>frequency = - 422212465065990656, residual = \<lparr>tv_secs = 0, tv_usec = 0\<rparr>,
           rejecting = False\<rparr>)
   \<and> read_frequency PRV_AdjustFreq
        \<lparr>frequency = - 422212465065990656, residual = \<lparr>tv_secs = 0, tv_usec = 0\<rparr>,
          rejecting = False\<rparr> =
       Returns (98304 + 106 / 2 ^ 36,
         \<lparr>frequency = - 422212465065990656, residual = \<lparr>tv_secs = 0, tv_usec = 0\<rparr>,
           rejecting = False\<rparr>)
   \<and> \<not> \<bar>(98304 + 106 / 2 ^ 36) - (98304 + 107 / 2 ^ 36 :: real)\<bar> \<le> 1 / (1000 * 2 ^ 32)"
  by (simp add: set_frequency_def read_frequency_def PRV_AdjustFreq_def double_mul_def
      double_div_def int64_to_double_def double_to_int64_def to_double_def ilog2_def
      compute_bitlen round_even_def trunc_def Let_def)

subsection \<open>Start-up reset\<close>

text \<open>
  C9.  Two resets in succession end as one does.  On the kernel above a reset commits
  the zero delta whatever the residue was, and a second reset finds that state and leaves
  it; when the kernel rejects the call the first reset is already fatal.
\<close>

theorem reset_adjtime_offset_idempotent:
  "and_then (reset_adjtime_offset PRV_AdjustTime k) (reset_adjtime_offset PRV_AdjustTime) =
     reset_adjtime_offset PRV_AdjustTime k
   \<and> (\<not> rejecting k \<longrightarrow>
        reset_adjtime_offset PRV_AdjustTime k =
          Returns (k\<lparr>residual := \<lparr>tv_secs = 0, tv_usec = 0\<rparr>\<rparr>))
   \<and> (rejecting k \<longrightarrow> reset_adjtime_offset PRV_AdjustTime k = Fatal ''adjtime() failed'')"
  by (simp add: reset_adjtime_offset_def PRV_AdjustTime_def and_then_def)

theorem reset_adjtime_offset_idempotent_witness:
  "\<not> rejecting \<lparr>frequency = 5, residual = \<lparr>tv_secs = 3, tv_usec = 250000\<rparr>, rejecting = False\<rparr>
   \<and> reset_adjtime_offset PRV_AdjustTime
        \<lparr>frequency = 5, residual = \<lparr>tv_secs = 3, tv_usec = 250000\<rparr>, rejecting = False\<rparr> =
       Returns \<lparr>frequency = 5, residual = \<lparr>tv_secs = 0, tv_usec = 0\<rparr>, rejecting = False\<rparr>
   \<and> and_then (reset_adjtime_offset PRV_AdjustTime
          \<lparr>frequency = 5, residual = \<lparr>tv_secs = 3, tv_usec = 250000\<rparr>, rejecting = False\<rparr>)
        (reset_adjtime_offset PRV_AdjustTime) =
       Returns \<lparr>frequency = 5, residual = \<lparr>tv_secs = 0, tv_usec = 0\<rparr>, rejecting = False\<rparr>"
proof -
  let ?k = "\<lparr>frequency = 5, residual = \<lparr>tv_secs = 3, tv_usec = 250000\<rparr>, rejecting = False\<rparr>"
  note t = reset_adjtime_offset_idempotent [of ?k]
  have a: "\<not> rejecting ?k" by simp
  from t a have r: "reset_adjtime_offset PRV_AdjustTime ?k =
      Returns \<lparr>frequency = 5, residual = \<lparr>tv_secs = 0, tv_usec = 0\<rparr>, rejecting = False\<rparr>"
    by simp
  from t have "and_then (reset_adjtime_offset PRV_AdjustTime ?k)
      (reset_adjtime_offset PRV_AdjustTime) = reset_adjtime_offset PRV_AdjustTime ?k"
    by (rule conjunct1)
  with r a show ?thesis
    by (simp only: simp_thms)
qed

end
